theory Spec2Isabelle
  imports Complex_Main "HOL-Library.Log_Nat"
begin

section \<open>Numbers\<close>

text \<open>
  The indicator columns of the source are pandas float columns. Their finite values are
  modelled as exact reals (rounding and overflow are not modelled); the special values
  that the control flow of the source depends on are modelled explicitly: \<open>NaN\<close> (the
  result of \<open>diff\<close> on the first row, of an unfilled rolling window and of \<open>0 / 0\<close>) and the
  two infinities (the result of \<open>x / 0\<close> for \<open>x \<noteq> 0\<close>). The sign of a zero is not
  modelled: it only selects the sign of the infinity that \<open>x / 0\<close> yields.

  The stakes are Python floats as well, and there the last bit matters: rounding a product
  to two decimals depends on which side of a decimal tie the double product falls
  (\<open>22.05 * 2.1\<close> is a double just above 46.305, so it rounds to 46.31). The arithmetic of
  the stakes is therefore that of IEEE 754 doubles, see \<open>to_double\<close> below.
\<close>

datatype fval = NaN | PInf | NInf | Fin real

fun isna :: "fval \<Rightarrow> bool" where
  "isna NaN = True"
| "isna _ = False"

fun fneg :: "fval \<Rightarrow> fval" where
  "fneg NaN = NaN"
| "fneg PInf = NInf"
| "fneg NInf = PInf"
| "fneg (Fin x) = Fin (- x)"

fun fadd :: "fval \<Rightarrow> fval \<Rightarrow> fval" where
  "fadd NaN _ = NaN"
| "fadd _ NaN = NaN"
| "fadd PInf NInf = NaN"
| "fadd NInf PInf = NaN"
| "fadd PInf _ = PInf"
| "fadd NInf _ = NInf"
| "fadd _ PInf = PInf"
| "fadd _ NInf = NInf"
| "fadd (Fin x) (Fin y) = Fin (x + y)"

definition fsub :: "fval \<Rightarrow> fval \<Rightarrow> fval" where
  "fsub a b = fadd a (fneg b)"

fun fdiv :: "fval \<Rightarrow> fval \<Rightarrow> fval" where
  "fdiv NaN _ = NaN"
| "fdiv _ NaN = NaN"
| "fdiv PInf (Fin y) = (if y < 0 then NInf else PInf)"
| "fdiv NInf (Fin y) = (if y < 0 then PInf else NInf)"
| "fdiv PInf _ = NaN"
| "fdiv NInf _ = NaN"
| "fdiv (Fin x) PInf = Fin 0"
| "fdiv (Fin x) NInf = Fin 0"
| "fdiv (Fin x) (Fin y) =
     (if y = 0 then (if x = 0 then NaN else if 0 < x then PInf else NInf)
      else Fin (x / y))"

text \<open>Comparisons: every comparison with \<open>NaN\<close> is false.\<close>

fun flt :: "fval \<Rightarrow> fval \<Rightarrow> bool" where
  "flt NaN _ = False"
| "flt _ NaN = False"
| "flt PInf _ = False"
| "flt _ NInf = False"
| "flt NInf _ = True"
| "flt _ PInf = True"
| "flt (Fin x) (Fin y) = (x < y)"

definition fgt :: "fval \<Rightarrow> fval \<Rightarrow> bool" where
  "fgt a b = flt b a"

fun fle :: "fval \<Rightarrow> fval \<Rightarrow> bool" where
  "fle NaN _ = False"
| "fle _ NaN = False"
| "fle NInf _ = True"
| "fle _ PInf = True"
| "fle PInf _ = False"
| "fle _ NInf = False"
| "fle (Fin x) (Fin y) = (x \<le> y)"

definition fge :: "fval \<Rightarrow> fval \<Rightarrow> bool" where
  "fge a b = fle b a"

text \<open>
  A numeric option value of the configuration: the JSON file holds integers and floats.
\<close>

datatype pyval = PInt int | PFloat real

fun to_real :: "pyval \<Rightarrow> real" where
  "to_real (PInt k) = of_int k"
| "to_real (PFloat r) = r"

datatype error = KeyError | IndexError | ValueError

text \<open>
  Rounding to the nearest integer, a tie going to the even neighbour.
\<close>

definition round_half_even :: "real \<Rightarrow> int" where
  "round_half_even x =
     (let f = \<lfloor>x\<rfloor>; d = x - of_int f
      in if d < 1 / 2 then f else if 1 / 2 < d then f + 1
         else if even f then f else f + 1)"

text \<open>
  A double is written as the real number it denotes. \<open>to_double x\<close> is the double nearest
  to \<open>x\<close>: with \<open>2 ^ k \<le> |x| < 2 ^ (k + 1)\<close> the doubles around \<open>x\<close> are the multiples of
  \<open>2 ^ (k - 52)\<close> (of \<open>2 ^ - 1074\<close> in the subnormal range), and a tie goes to the even
  multiple. Overflow beyond the largest double is not modelled.
\<close>

definition floor_log2 :: "real \<Rightarrow> int" where
  "floor_log2 x = (if 1 \<le> x then bitlen \<lfloor>x\<rfloor> - 1 else - bitlen (\<lceil>1 / x\<rceil> - 1))"

definition scale2 :: "real \<Rightarrow> int \<Rightarrow> real" where
  "scale2 x e = (if 0 \<le> e then x * 2 ^ nat e else x / 2 ^ nat (- e))"

definition to_double :: "real \<Rightarrow> real" where
  "to_double x =
     (if x = 0 then 0
      else let e = max (floor_log2 \<bar>x\<bar> - 52) (- 1074)
           in scale2 (of_int (round_half_even (scale2 x (- e)))) e)"

text \<open>The product of two doubles: the exact product, rounded to the nearest double.\<close>

definition float_mul :: "real \<Rightarrow> real \<Rightarrow> real" where
  "float_mul a b = to_double (a * b)"

text \<open>
  Python's \<open>round(x, 2)\<close> of a double: the decimal with two places nearest to the exact
  value of \<open>x\<close>, a tie going to the even last digit, converted to the nearest double.
\<close>

definition py_round2 :: "real \<Rightarrow> real" where
  "py_round2 x = to_double (of_int (round_half_even (x * 100)) / 100)"

text \<open>
  Python's \<open>xs[i]\<close>: an index from \<open>-len(xs)\<close> to \<open>-1\<close> is taken from the end, one outside
  \<open>-len(xs) .. len(xs) - 1\<close> raises \<open>IndexError\<close>.
\<close>

definition py_index :: "'a list \<Rightarrow> int \<Rightarrow> error + 'a" where
  "py_index xs i =
     (if 0 \<le> i \<and> i < int (length xs) then Inr (xs ! nat i)
      else if i < 0 \<and> - int (length xs) \<le> i then Inr (xs ! nat (int (length xs) + i))
      else Inl IndexError)"

section \<open>Stake sizing (pocket\_option\_bot.py)\<close>

record trade =
  direction :: string
  amount :: real
  status :: string
  martingale_level :: nat

record risk_management =
  cfg_martingale_enabled :: bool
  cfg_martingale_coefficient :: real
  cfg_max_martingale_level :: int
  cfg_max_daily_loss :: real
  cfg_max_daily_trades :: int

record bot_config =
  cfg_trade_amount :: real
  cfg_risk :: risk_management

record bot =
  trade_amount :: real
  martingale_enabled :: bool
  martingale_coefficient :: real
  martingale_stack :: "real list"
  max_martingale_level :: int
  max_daily_loss :: real
  max_daily_trades :: int
  trade_history :: "trade list"
  daily_loss :: real
  daily_trades :: int

text \<open>
  \<open>PocketOptionBot.__init__\<close>, the risk-management and session fields. The constructor
  copies the configuration; it contains no check and no raise.
\<close>

definition PocketOptionBot_init :: "bot_config \<Rightarrow> error + bot" where
  "PocketOptionBot_init config =
     Inr \<lparr> trade_amount = cfg_trade_amount config,
           martingale_enabled = cfg_martingale_enabled (cfg_risk config),
           martingale_coefficient = cfg_martingale_coefficient (cfg_risk config),
           martingale_stack = [],
           max_martingale_level = cfg_max_martingale_level (cfg_risk config),
           max_daily_loss = cfg_max_daily_loss (cfg_risk config),
           max_daily_trades = cfg_max_daily_trades (cfg_risk config),
           trade_history = [],
           daily_loss = 0,
           daily_trades = 0 \<rparr>"

text \<open>
  The initialisation loop of \<open>calculate_martingale_amount\<close>:
  \<^verbatim>\<open>
  self.martingale_stack = [self.trade_amount]
  for i in range(1, self.max_martingale_level):
      next_amount = self.martingale_stack[i-1] * self.martingale_coefficient
      self.martingale_stack.append(round(next_amount, 2))
  \<close>
\<close>

definition init_stack :: "real \<Rightarrow> real \<Rightarrow> int \<Rightarrow> real list" where
  "init_stack base coef max_level =
     fold (\<lambda>i stack. stack @ [py_round2 (float_mul (stack ! (i - 1)) coef)])
          [1 ..< nat max_level] [base]"

definition calculate_martingale_amount :: "bot \<Rightarrow> string \<Rightarrow> (error + real) \<times> bot" where
  "calculate_martingale_amount b last_result =
     (if \<not> martingale_enabled b then (Inr (trade_amount b), b)
      else
        let b1 = (if martingale_stack b = []
                  then b\<lparr>martingale_stack :=
                         init_stack (trade_amount b) (martingale_coefficient b)
                                    (max_martingale_level b)\<rparr>
                  else b)
        in if last_result = ''win'' then (py_index (martingale_stack b1) 0, b1)
           else
             (case py_index (trade_history b1) (- 1) of
                Inl e \<Rightarrow> (Inl e, b1)
              | Inr t \<Rightarrow>
                  let current_level = int (martingale_level t);
                      next_level = min (current_level + 1) (max_martingale_level b1 - 1)
                  in (py_index (martingale_stack b1) next_level, b1)))"

text \<open>
  \<open>place_trade\<close>: the daily limits, then the browser interaction (\<open>ui_ok\<close> tells whether
  it went through; an exception there is caught and \<open>False\<close> returned), then the record
  appended to the history.
\<close>

definition place_trade :: "bot \<Rightarrow> string \<Rightarrow> real \<Rightarrow> bool \<Rightarrow> bool \<times> bot" where
  "place_trade b dir amt ui_ok =
     (if max_daily_trades b \<le> daily_trades b then (False, b)
      else if max_daily_loss b \<le> daily_loss b then (False, b)
      else if \<not> ui_ok then (False, b)
      else
        let t = \<lparr> direction = dir, amount = amt, status = ''pending'',
                  martingale_level =
                    (if martingale_enabled b
                     then length (filter (\<lambda>t. status t = ''loss'') (trade_history b))
                     else 0) \<rparr>
        in (True, b\<lparr>trade_history := trade_history b @ [t],
                    daily_trades := daily_trades b + 1\<rparr>))"

text \<open>
  \<open>check_trade_result\<close>: the result is drawn at random in the source
  (\<open>random.choice(["win", "loss"])\<close>); here it is an argument.
\<close>

definition check_trade_result :: "bot \<Rightarrow> string \<Rightarrow> string \<times> bot" where
  "check_trade_result b result =
     (if trade_history b = [] then (result, b)
      else
        let last_trade = (last (trade_history b))\<lparr>status := result\<rparr>;
            b1 = b\<lparr>trade_history := butlast (trade_history b) @ [last_trade]\<rparr>
        in (result, if result = ''loss''
                    then b1\<lparr>daily_loss := daily_loss b1 + amount last_trade\<rparr>
                    else b1))"

text \<open>
  One iteration of the trading loop of \<open>run_trading_session\<close>, from the choice of the
  amount on; the signal \<open>dir\<close> has been computed. The first component is the amount
  requested.
\<close>

definition next_amount :: "bot \<Rightarrow> (error + real) \<times> bot" where
  "next_amount b =
     (if trade_history b \<noteq> [] \<and> martingale_enabled b
      then calculate_martingale_amount b (status (last (trade_history b)))
      else (Inr (trade_amount b), b))"

definition trading_cycle :: "bot \<Rightarrow> string \<Rightarrow> string \<Rightarrow> bot" where
  "trading_cycle b dir result =
     (if max_daily_trades b \<le> daily_trades b \<or> max_daily_loss b \<le> daily_loss b then b
      else case next_amount b of
             (Inl e, b1) \<Rightarrow> b1
           | (Inr amt, b1) \<Rightarrow>
               (case place_trade b1 dir amt True of
                  (False, b2) \<Rightarrow> b2
                | (True, b2) \<Rightarrow> snd (check_trade_result b2 result)))"

text \<open>A session in which every signal is \<open>call\<close> and the trades settle as \<open>results\<close>.\<close>

definition run_results :: "bot \<Rightarrow> string list \<Rightarrow> bot" where
  "run_results b results = fold (\<lambda>r b. trading_cycle b ''call'' r) results b"

section \<open>Series and frames (the pandas operations the strategies use)\<close>

text \<open>
  A frame has a row count and named columns. \<open>data[name]\<close> raises \<open>KeyError\<close> for a
  missing column, \<open>data[name] = col\<close> adds or replaces a column, \<open>data.iloc[-1]\<close> is the
  last row and raises \<open>IndexError\<close> on a frame without rows.
\<close>

record dataframe =
  index_len :: nat
  columns :: "string \<Rightarrow> fval list option"

definition get_column :: "dataframe \<Rightarrow> string \<Rightarrow> error + fval list" where
  "get_column data name = (case columns data name of None \<Rightarrow> Inl KeyError | Some c \<Rightarrow> Inr c)"

definition set_column :: "dataframe \<Rightarrow> string \<Rightarrow> fval list \<Rightarrow> dataframe" where
  "set_column data name c = data\<lparr>columns := (columns data)(name \<mapsto> c)\<rparr>"

definition iloc_last :: "dataframe \<Rightarrow> error + (string \<Rightarrow> fval option)" where
  "iloc_last data =
     (if index_len data = 0 then Inl IndexError
      else Inr (\<lambda>name. map_option last (columns data name)))"

definition row_get :: "(string \<Rightarrow> fval option) \<Rightarrow> string \<Rightarrow> error + fval" where
  "row_get row name = (case row name of None \<Rightarrow> Inl KeyError | Some v \<Rightarrow> Inr v)"

text \<open>\<open>Series.diff()\<close>: the first entry is \<open>NaN\<close>, every other one the change from the row before.\<close>

fun diff :: "fval list \<Rightarrow> fval list" where
  "diff [] = []"
| "diff (x # xs) = NaN # map2 (\<lambda>prev cur. fsub cur prev) (x # xs) xs"

text \<open>\<open>Series.where(cond, other)\<close>: keeps an entry where the condition holds.\<close>

definition series_where :: "(fval \<Rightarrow> bool) \<Rightarrow> fval \<Rightarrow> fval list \<Rightarrow> fval list" where
  "series_where cond other xs = map (\<lambda>d. if cond d then d else other) xs"

text \<open>
  \<open>Series.rolling(window=w).mean()\<close>: the window must be an integer that is not negative
  (\<open>ValueError\<close> otherwise); row \<open>i\<close> holds the mean of the \<open>w\<close> entries ending at \<open>i\<close>, and
  \<open>NaN\<close> when fewer than \<open>w\<close> entries that are not \<open>NaN\<close> are there (or \<open>w = 0\<close>).
\<close>

definition window_mean :: "nat \<Rightarrow> fval list \<Rightarrow> fval" where
  "window_mean w ys =
     (if w = 0 \<or> list_ex isna ys then NaN
      else fdiv (foldl fadd (Fin 0) ys) (Fin (real w)))"

definition rolling_mean :: "pyval \<Rightarrow> fval list \<Rightarrow> error + fval list" where
  "rolling_mean window xs =
     (case window of
        PFloat r \<Rightarrow> Inl ValueError
      | PInt k \<Rightarrow>
          if k < 0 then Inl ValueError
          else let w = nat k
               in Inr (map (\<lambda>i. if i + 1 < w then NaN
                                 else window_mean w (take w (drop (i + 1 - w) xs)))
                           [0 ..< length xs]))"

section \<open>Strategies (strategies.py)\<close>

type_synonym parameters = "string \<Rightarrow> pyval option"

text \<open>\<open>parameters or {}\<close> and \<open>dict.get(key, default)\<close>.\<close>

definition or_empty :: "parameters option \<Rightarrow> parameters" where
  "or_empty p = (case p of None \<Rightarrow> Map.empty | Some m \<Rightarrow> m)"

definition dict_get :: "parameters \<Rightarrow> string \<Rightarrow> pyval \<Rightarrow> pyval" where
  "dict_get m k d = (case m k of None \<Rightarrow> d | Some v \<Rightarrow> v)"

record trend_strategy =
  short_period :: pyval
  long_period :: pyval

record rsi_strategy =
  rsi_period :: pyval
  overbought :: pyval
  oversold :: pyval

record random_strategy =
  win_probability :: pyval

text \<open>The constructors read their options with defaults; they contain no check and no raise.\<close>

definition TrendFollowingStrategy_init :: "parameters option \<Rightarrow> error + trend_strategy" where
  "TrendFollowingStrategy_init p =
     Inr \<lparr> short_period = dict_get (or_empty p) ''short_period'' (PInt 5),
           long_period = dict_get (or_empty p) ''long_period'' (PInt 10) \<rparr>"

definition RSIStrategy_init :: "parameters option \<Rightarrow> error + rsi_strategy" where
  "RSIStrategy_init p =
     Inr \<lparr> rsi_period = dict_get (or_empty p) ''rsi_period'' (PInt 14),
           overbought = dict_get (or_empty p) ''rsi_overbought'' (PInt 70),
           oversold = dict_get (or_empty p) ''rsi_oversold'' (PInt 30) \<rparr>"

definition RandomStrategy_init :: "parameters option \<Rightarrow> error + random_strategy" where
  "RandomStrategy_init p =
     Inr \<lparr> win_probability = dict_get (or_empty p) ''win_probability'' (PFloat (1 / 2)) \<rparr>"

text \<open>
  \<open>analyze\<close> returns its result (a signal, \<open>None\<close>, or the exception raised) together with
  the frame as the call leaves it: the source assigns its indicator columns to the frame
  it was given.
\<close>

definition TrendFollowingStrategy_analyze ::
  "trend_strategy \<Rightarrow> dataframe \<Rightarrow> (error + string option) \<times> dataframe" where
  "TrendFollowingStrategy_analyze s data =
     (if real (index_len data) < to_real (long_period s) then (Inr None, data)
      else case get_column data ''close'' of
        Inl e \<Rightarrow> (Inl e, data)
      | Inr close \<Rightarrow>
         (case rolling_mean (short_period s) close of
            Inl e \<Rightarrow> (Inl e, data)
          | Inr sma_short \<Rightarrow>
             let data1 = set_column data ''sma_short'' sma_short
             in (case get_column data1 ''close'' of
                   Inl e \<Rightarrow> (Inl e, data1)
                 | Inr close1 \<Rightarrow>
                    (case rolling_mean (long_period s) close1 of
                       Inl e \<Rightarrow> (Inl e, data1)
                     | Inr sma_long \<Rightarrow>
                        let data2 = set_column data1 ''sma_long'' sma_long
                        in (case iloc_last data2 of
                              Inl e \<Rightarrow> (Inl e, data2)
                            | Inr last_row \<Rightarrow>
                               (case row_get last_row ''sma_short'' of
                                  Inl e \<Rightarrow> (Inl e, data2)
                                | Inr a \<Rightarrow>
                                   (case row_get last_row ''sma_long'' of
                                      Inl e \<Rightarrow> (Inl e, data2)
                                    | Inr b \<Rightarrow>
                                       if isna a \<or> isna b then (Inr None, data2)
                                       else if fgt a b then (Inr (Some ''call''), data2)
                                       else (Inr (Some ''put''), data2))))))))"

definition calculate_rsi :: "rsi_strategy \<Rightarrow> dataframe \<Rightarrow> error + fval list" where
  "calculate_rsi s data =
     (case get_column data ''close'' of
        Inl e \<Rightarrow> Inl e
      | Inr close \<Rightarrow>
         let delta = diff close;
             gain = series_where (\<lambda>d. fgt d (Fin 0)) (Fin 0) delta;
             loss = map fneg (series_where (\<lambda>d. flt d (Fin 0)) (Fin 0) delta)
         in (case rolling_mean (rsi_period s) gain of
               Inl e \<Rightarrow> Inl e
             | Inr avg_gain \<Rightarrow>
                (case rolling_mean (rsi_period s) loss of
                   Inl e \<Rightarrow> Inl e
                 | Inr avg_loss \<Rightarrow>
                    let rs = map2 fdiv avg_gain avg_loss;
                        rsi = map (\<lambda>r. fsub (Fin 100) (fdiv (Fin 100) (fadd (Fin 1) r))) rs
                    in Inr rsi)))"

definition RSIStrategy_analyze ::
  "rsi_strategy \<Rightarrow> dataframe \<Rightarrow> (error + string option) \<times> dataframe" where
  "RSIStrategy_analyze s data =
     (if real (index_len data) < to_real (rsi_period s) + 1 then (Inr None, data)
      else case calculate_rsi s data of
        Inl e \<Rightarrow> (Inl e, data)
      | Inr rsi \<Rightarrow>
         let data1 = set_column data ''rsi'' rsi
         in (case iloc_last data1 of
               Inl e \<Rightarrow> (Inl e, data1)
             | Inr last_row \<Rightarrow>
                (case row_get last_row ''rsi'' of
                   Inl e \<Rightarrow> (Inl e, data1)
                 | Inr r \<Rightarrow>
                    if isna r then (Inr None, data1)
                    else if fle r (Fin (to_real (oversold s))) then (Inr (Some ''call''), data1)
                    else if fge r (Fin (to_real (overbought s))) then (Inr (Some ''put''), data1)
                    else (Inr None, data1))))"

text \<open>
  \<open>RandomStrategy.analyze\<close>: \<open>u\<close> is the number that \<open>random.random()\<close> returns.
\<close>

definition RandomStrategy_analyze ::
  "random_strategy \<Rightarrow> real \<Rightarrow> dataframe \<Rightarrow> (error + string option) \<times> dataframe" where
  "RandomStrategy_analyze s u data =
     (if u < to_real (win_probability s) then (Inr (Some ''call''), data)
      else (Inr (Some ''put''), data))"

datatype strategy =
  TrendFollowing trend_strategy | RSI rsi_strategy | Random random_strategy

text \<open>The factory: an unknown strategy type falls back to \<open>trend_following\<close>.\<close>

definition get_strategy :: "string \<Rightarrow> parameters option \<Rightarrow> error + strategy" where
  "get_strategy strategy_type p =
     (if strategy_type = ''rsi'' then map_sum id RSI (RSIStrategy_init p)
      else if strategy_type = ''random'' then map_sum id Random (RandomStrategy_init p)
      else map_sum id TrendFollowing (TrendFollowingStrategy_init p))"

fun analyze :: "strategy \<Rightarrow> real \<Rightarrow> dataframe \<Rightarrow> (error + string option) \<times> dataframe" where
  "analyze (TrendFollowing s) u data = TrendFollowingStrategy_analyze s data"
| "analyze (RSI s) u data = RSIStrategy_analyze s data"
| "analyze (Random s) u data = RandomStrategy_analyze s u data"

section \<open>Notions of the specification\<close>

text \<open>
  The simple moving average of the trailing \<open>w\<close> closing prices, and the number of
  losses since the most recent win, as the specification words them; they are compared
  with what the source computes.
\<close>

definition trailing_mean :: "nat \<Rightarrow> real list \<Rightarrow> real" where
  "trailing_mean w cs = sum_list (drop (length cs - w) cs) / real w"

definition consecutive_loss_count :: "trade list \<Rightarrow> nat" where
  "consecutive_loss_count h = length (takeWhile (\<lambda>t. status t = ''loss'') (rev h))"

section \<open>Example inputs\<close>

definition example_config :: bot_config where
  "example_config =
     \<lparr> cfg_trade_amount = 1,
       cfg_risk = \<lparr> cfg_martingale_enabled = True, cfg_martingale_coefficient = to_double (21 / 10),
                    cfg_max_martingale_level = 5, cfg_max_daily_loss = 20,
                    cfg_max_daily_trades = 20 \<rparr> \<rparr>"

definition example_bot :: bot where
  "example_bot =
     \<lparr> trade_amount = 1, martingale_enabled = True,
       martingale_coefficient = to_double (21 / 10),
       martingale_stack = [], max_martingale_level = 5, max_daily_loss = 20,
       max_daily_trades = 20, trade_history = [], daily_loss = 0, daily_trades = 0 \<rparr>"

text \<open>
  The ladder is built once, from fields that nothing changes afterwards: in every state
  of a session it is either not built yet or the ladder of the configuration.
\<close>

definition stack_ok :: "bot \<Rightarrow> bool" where
  "stack_ok b \<longleftrightarrow>
     martingale_stack b = [] \<or>
     martingale_stack b
       = init_stack (trade_amount b) (martingale_coefficient b) (max_martingale_level b)"

definition example_bot_after_loss :: bot where
  "example_bot_after_loss =
     example_bot\<lparr> trade_history :=
                    [\<lparr> direction = ''call'', amount = 1, status = ''loss'',
                       martingale_level = 0 \<rparr>],
                  daily_loss := 1, daily_trades := 1 \<rparr>"

text \<open>A frame that holds only the closing prices \<open>cs\<close>, and a crossover of 2 against 3 bars.\<close>

definition close_frame :: "real list \<Rightarrow> dataframe" where
  "close_frame cs = \<lparr> index_len = length cs, columns = [''close'' \<mapsto> map Fin cs] \<rparr>"

definition example_trend :: trend_strategy where
  "example_trend = \<lparr> short_period = PInt 2, long_period = PInt 3 \<rparr>"

definition example_rsi :: rsi_strategy where
  "example_rsi = \<lparr> rsi_period = PInt 2, overbought = PInt 70, oversold = PInt 30 \<rparr>"

section \<open>The RSI columns over finite prices\<close>

text \<open>
  What \<open>calculate_rsi\<close> computes, row by row, when every closing price is finite: the
  changes, the gain and the loss column, and the value of a row from its two averages.
  The lemmas \<open>gain_column\<close>, \<open>loss_column\<close> and \<open>rsi_last_finite\<close> connect them to the
  columns of the source.
\<close>

definition deltas :: "real list \<Rightarrow> real list" where
  "deltas cs = map2 (\<lambda>prev cur. cur - prev) cs (tl cs)"

definition gains :: "real list \<Rightarrow> real list" where
  "gains cs = 0 # map (\<lambda>d. if 0 < d then d else 0) (deltas cs)"

definition losses :: "real list \<Rightarrow> real list" where
  "losses cs = 0 # map (\<lambda>d. if d < 0 then - d else 0) (deltas cs)"

definition rsi_of :: "real \<Rightarrow> real \<Rightarrow> fval" where
  "rsi_of avg_gain avg_loss =
     fsub (Fin 100) (fdiv (Fin 100) (fadd (Fin 1) (fdiv (Fin avg_gain) (Fin avg_loss))))"

text \<open>The columns that \<open>analyze\<close> assigns to the frame it is given.\<close>

fun indicator_columns :: "strategy \<Rightarrow> string set" where
  "indicator_columns (TrendFollowing s) = {''sma_short'', ''sma_long''}"
| "indicator_columns (RSI s) = {''rsi''}"
| "indicator_columns (Random s) = {}"

text \<open>
  Options with \<open>long_period \<le> short_period\<close>, and a configuration with coefficient 1.0 and
  \<open>max_level = 0\<close>.
\<close>

definition malformed_parameters :: parameters where
  "malformed_parameters = [''short_period'' \<mapsto> PInt 10, ''long_period'' \<mapsto> PInt 5]"

definition malformed_config :: bot_config where
  "malformed_config =
     \<lparr> cfg_trade_amount = 1,
       cfg_risk = \<lparr> cfg_martingale_enabled = True, cfg_martingale_coefficient = 1,
                    cfg_max_martingale_level = 0, cfg_max_daily_loss = 20,
                    cfg_max_daily_trades = 20 \<rparr> \<rparr>"

text \<open>
  A base stake of 0.001 with the default coefficient and three levels, before the first
  trade and after a first trade that was won.
\<close>

definition small_stake_bot :: bot where
  "small_stake_bot =
     \<lparr> trade_amount = to_double (1 / 1000), martingale_enabled = True,
       martingale_coefficient = to_double (21 / 10),
       martingale_stack = [], max_martingale_level = 3, max_daily_loss = 20,
       max_daily_trades = 20, trade_history = [], daily_loss = 0, daily_trades = 0 \<rparr>"

definition small_stake_after_win :: bot where
  "small_stake_after_win =
     small_stake_bot\<lparr> trade_history :=
                        [\<lparr> direction = ''call'', amount = to_double (1 / 1000),
                           status = ''win'', martingale_level = 0 \<rparr>],
                      daily_trades := 1 \<rparr>"

section \<open>The martingale ladder\<close>

lemma fold_step_length:
  "length (fold (\<lambda>i st. st @ [g i st]) [a ..< b] st0) = length st0 + (b - a)"
  by (induction b) auto

lemma fold_step_prefix:
  "i < length st0 \<Longrightarrow> fold (\<lambda>i st. st @ [g i st]) [a ..< b] st0 ! i = st0 ! i"
  by (induction b) (auto simp: nth_append fold_step_length)

lemma fold_step_nth:
  "a \<le> i \<Longrightarrow> i < b \<Longrightarrow> length st0 = a \<Longrightarrow>
   fold (\<lambda>i st. st @ [g i st]) [a ..< b] st0 ! i
     = g i (fold (\<lambda>i st. st @ [g i st]) [a ..< i] st0)"
proof (induction b)
  case 0
  then show ?case by simp
next
  case (Suc b)
  show ?case
  proof (cases "i = b")
    case True
    with Suc.prems show ?thesis by (simp add: nth_append fold_step_length)
  next
    case False
    with Suc.prems have "i < b" by simp
    with Suc show ?thesis by (simp add: nth_append fold_step_length)
  qed
qed

lemma length_init_stack: "length (init_stack base coef n) = max 1 (nat n)"
  by (simp add: init_stack_def fold_step_length)

lemma init_stack_0: "init_stack base coef n ! 0 = base"
  by (simp add: init_stack_def fold_step_prefix)

lemma init_stack_step:
  assumes "1 \<le> i" "i < nat n"
  shows "init_stack base coef n ! i
           = py_round2 (float_mul (init_stack base coef n ! (i - 1)) coef)"
proof -
  let ?f = "\<lambda>i stack. stack @ [py_round2 (float_mul (stack ! (i - 1)) coef)]"
  have a: "fold ?f [1 ..< nat n] [base] ! i
             = py_round2 (float_mul (fold ?f [1 ..< i] [base] ! (i - 1)) coef)"
    using assms
      fold_step_nth [of 1 i "nat n" "[base]"
                        "\<lambda>i stack. py_round2 (float_mul (stack ! (i - 1)) coef)"]
    by simp
  have b: "fold ?f [1 ..< nat n] [base] = fold ?f [i ..< nat n] (fold ?f [1 ..< i] [base])"
    using assms upt_add_eq_append [of 1 i "nat n - i"] by simp
  have "i - 1 < length (fold ?f [1 ..< i] [base])"
    using assms by (simp add: fold_step_length)
  then have "fold ?f [1 ..< nat n] [base] ! (i - 1) = fold ?f [1 ..< i] [base] ! (i - 1)"
    unfolding b by (rule fold_step_prefix)
  with a show ?thesis by (simp add: init_stack_def)
qed

subsection \<open>The doubles of the examples\<close>

lemmas double_eval =
  to_double_def floor_log2_def scale2_def round_half_even_def compute_bitlen Let_def
  float_mul_def py_round2_def

lemma double_1: "to_double 1 = 1"
  by (simp add: double_eval)

lemma double_2_1: "to_double (21 / 10) = 4728779608739021 / 2251799813685248"
  by (simp add: double_eval)

lemma double_4_41: "to_double (441 / 100) = 1241304647293993 / 281474976710656"
  by (simp add: double_eval)

lemma double_9_26: "to_double (463 / 50) = 5212916568681349 / 562949953421312"
  by (simp add: double_eval)

lemma double_19_45: "to_double (389 / 20) = 5474688297022259 / 281474976710656"
  by (simp add: double_eval)

lemma double_0_001: "to_double (1 / 1000) = 1152921504606847 / 1152921504606846976"
  by (simp add: double_eval)

lemma step_1: "py_round2 (float_mul 1 (4728779608739021 / 2251799813685248))
                 = 4728779608739021 / 2251799813685248"
  by (simp add: double_eval)

lemma step_2: "py_round2 (float_mul (4728779608739021 / 2251799813685248)
                                    (4728779608739021 / 2251799813685248))
                 = 1241304647293993 / 281474976710656"
  by (simp add: double_eval)

lemma step_3: "py_round2 (float_mul (1241304647293993 / 281474976710656)
                                    (4728779608739021 / 2251799813685248))
                 = 5212916568681349 / 562949953421312"
  by (simp add: double_eval)

lemma step_4: "py_round2 (float_mul (5212916568681349 / 562949953421312)
                                    (4728779608739021 / 2251799813685248))
                 = 5474688297022259 / 281474976710656"
  by (simp add: double_eval)

lemma init_stack_example:
  "init_stack 1 (to_double (21 / 10)) 5
     = map to_double [1, 21 / 10, 441 / 100, 926 / 100, 1945 / 100]"
  unfolding init_stack_def
  by (simp add: upt_conv_Cons double_1 double_2_1 double_4_41 double_9_26 double_19_45
        step_1 step_2 step_3 step_4)

text \<open>
  At a decimal tie the double product decides: with base stake 5 the third product
  \<open>22.05 * 2.1\<close> is a double above 46.305 and the fourth entry is 46.31, not 46.30.
\<close>

lemma tie_step_1: "py_round2 (float_mul 5 (4728779608739021 / 2251799813685248)) = 21 / 2"
  by (simp add: double_eval)

lemma tie_step_2: "py_round2 (float_mul (21 / 2) (4728779608739021 / 2251799813685248))
                 = 6206523236469965 / 281474976710656"
  by (simp add: double_eval)

lemma tie_step_3: "py_round2 (float_mul (6206523236469965 / 281474976710656)
                                        (4728779608739021 / 2251799813685248))
                 = 814694135716905 / 17592186044416"
  by (simp add: double_eval)

lemma tie_step_4: "py_round2 (float_mul (814694135716905 / 17592186044416)
                                        (4728779608739021 / 2251799813685248))
                 = 389 / 4"
  by (simp add: double_eval)

lemma double_22_05: "to_double (441 / 20) = 6206523236469965 / 281474976710656"
  by (simp add: double_eval)

lemma double_46_31: "to_double (4631 / 100) = 814694135716905 / 17592186044416"
  by (simp add: double_eval)

lemma double_exact: "to_double 5 = 5" "to_double (21 / 2) = 21 / 2" "to_double (389 / 4) = 389 / 4"
  by (simp_all add: double_eval)

lemma init_stack_base_5:
  "init_stack 5 (to_double (21 / 10)) 5
     = map to_double [5, 105 / 10, 2205 / 100, 4631 / 100, 9725 / 100]"
  unfolding init_stack_def
  by (simp add: upt_conv_Cons double_2_1 double_22_05 double_46_31 double_exact
        tie_step_1 tie_step_2 tie_step_3 tie_step_4)

lemma stack_after_first_call:
  "martingale_enabled b \<Longrightarrow> martingale_stack b = [] \<Longrightarrow>
   martingale_stack (snd (calculate_martingale_amount b r))
     = init_stack (trade_amount b) (martingale_coefficient b) (max_martingale_level b)"
  by (simp add: calculate_martingale_amount_def Let_def split: sum.splits)

text \<open>
  C5. The ladder that the first call of \<open>calculate_martingale_amount\<close> builds (martingale
  enabled, nothing built yet, \<open>max_level \<ge> 1\<close>) has length \<open>max_level\<close>, starts with the base
  stake, and each later entry is the entry before it times the coefficient (a product of
  doubles), rounded to two decimals by \<open>round\<close>; for base stake 1, coefficient 2.1 and
  \<open>max_level = 5\<close> it is \<open>[1, 2.1, 4.41, 9.26, 19.45]\<close>, each literal being the double it
  denotes.
\<close>

theorem martingale_ladder_built:
  assumes "martingale_enabled b" and "martingale_stack b = []"
    and "1 \<le> max_martingale_level b"
  shows "let ladder = martingale_stack (snd (calculate_martingale_amount b last_result))
         in length ladder = nat (max_martingale_level b) \<and>
            ladder ! 0 = trade_amount b \<and>
            (\<forall>i. 1 \<le> i \<and> i < length ladder \<longrightarrow>
                 ladder ! i
                   = py_round2 (float_mul (ladder ! (i - 1)) (martingale_coefficient b))) \<and>
            (trade_amount b = 1 \<and> martingale_coefficient b = to_double (21 / 10) \<and>
             max_martingale_level b = 5 \<longrightarrow>
               ladder = map to_double [1, 21 / 10, 441 / 100, 926 / 100, 1945 / 100])"
proof -
  let ?L = "init_stack (trade_amount b) (martingale_coefficient b) (max_martingale_level b)"
  have st: "martingale_stack (snd (calculate_martingale_amount b last_result)) = ?L"
    using assms(1,2) by (rule stack_after_first_call)
  have len: "length ?L = nat (max_martingale_level b)"
    using assms(3) by (simp add: length_init_stack)
  have step: "\<forall>i. 1 \<le> i \<and> i < length ?L \<longrightarrow>
                 ?L ! i = py_round2 (float_mul (?L ! (i - 1)) (martingale_coefficient b))"
    using len init_stack_step by simp
  have ex: "trade_amount b = 1 \<and> martingale_coefficient b = to_double (21 / 10) \<and>
            max_martingale_level b = 5 \<longrightarrow>
              ?L = map to_double [1, 21 / 10, 441 / 100, 926 / 100, 1945 / 100]"
  proof
    assume h: "trade_amount b = 1 \<and> martingale_coefficient b = to_double (21 / 10) \<and>
               max_martingale_level b = 5"
    then have "?L = init_stack 1 (to_double (21 / 10)) 5" by metis
    then show "?L = map to_double [1, 21 / 10, 441 / 100, 926 / 100, 1945 / 100]"
      by (simp only: init_stack_example)
  qed
  show ?thesis
    unfolding st Let_def using len init_stack_0 step ex by blast
qed

theorem martingale_ladder_built_witness:
  "martingale_enabled example_bot \<and> martingale_stack example_bot = [] \<and>
   1 \<le> max_martingale_level example_bot \<and>
   martingale_stack (snd (calculate_martingale_amount example_bot ''loss''))
     = map to_double [1, 21 / 10, 441 / 100, 926 / 100, 1945 / 100]"
  using martingale_ladder_built [of example_bot "''loss''"]
  by (simp add: example_bot_def Let_def)

section \<open>The stake after a trade\<close>

lemma py_index_nth: "0 \<le> i \<Longrightarrow> i < int (length xs) \<Longrightarrow> py_index xs i = Inr (xs ! nat i)"
  by (simp add: py_index_def)

lemma py_index_last: "xs \<noteq> [] \<Longrightarrow> py_index xs (- 1) = Inr (last xs)"
  by (cases xs rule: rev_cases) (auto simp: py_index_def nth_append nat_add_distrib)

lemma init_stack_nonempty: "init_stack base coef n \<noteq> []"
  using length_init_stack [of base coef n] by (cases "init_stack base coef n") auto

lemma stack_after_call:
  "martingale_enabled b \<Longrightarrow> stack_ok b \<Longrightarrow>
   martingale_stack (snd (calculate_martingale_amount b r))
     = init_stack (trade_amount b) (martingale_coefficient b) (max_martingale_level b)"
  by (auto simp: calculate_martingale_amount_def stack_ok_def Let_def init_stack_nonempty
           split: sum.splits)

lemma amount_after_win:
  assumes "martingale_enabled b" "stack_ok b"
  shows "fst (calculate_martingale_amount b ''win'')
     = Inr (init_stack (trade_amount b) (martingale_coefficient b) (max_martingale_level b) ! 0)"
  using assms length_init_stack [of "trade_amount b" "martingale_coefficient b" "max_martingale_level b"]
  by (auto simp: calculate_martingale_amount_def stack_ok_def Let_def py_index_nth init_stack_nonempty)

lemma amount_after_non_win:
  assumes "martingale_enabled b" "stack_ok b" "r \<noteq> ''win''" "trade_history b \<noteq> []"
  shows "fst (calculate_martingale_amount b r)
     = py_index (init_stack (trade_amount b) (martingale_coefficient b) (max_martingale_level b))
         (min (int (martingale_level (last (trade_history b))) + 1) (max_martingale_level b - 1))"
  using assms
  by (auto simp: calculate_martingale_amount_def stack_ok_def Let_def py_index_last init_stack_nonempty)

lemma init_example: "PocketOptionBot_init example_config = Inr example_bot"
  by (simp add: PocketOptionBot_init_def example_config_def example_bot_def)

lemma after_loss_reachable: "run_results example_bot [''loss''] = example_bot_after_loss"
  by (simp add: run_results_def trading_cycle_def next_amount_def place_trade_def
        check_trade_result_def example_bot_def example_bot_after_loss_def Let_def)

lemma stack_ok_init: "PocketOptionBot_init c = Inr b \<Longrightarrow> stack_ok b"
  by (auto simp: PocketOptionBot_init_def stack_ok_def)

lemma calc_fields:
  "trade_amount (snd (calculate_martingale_amount b r)) = trade_amount b"
  "martingale_coefficient (snd (calculate_martingale_amount b r)) = martingale_coefficient b"
  "max_martingale_level (snd (calculate_martingale_amount b r)) = max_martingale_level b"
  by (auto simp: calculate_martingale_amount_def Let_def split: sum.splits)

lemma stack_ok_calc: "stack_ok b \<Longrightarrow> stack_ok (snd (calculate_martingale_amount b r))"
  by (auto simp: calculate_martingale_amount_def Let_def stack_ok_def split: sum.splits)

lemma stack_ok_next_amount: "stack_ok b \<Longrightarrow> stack_ok (snd (next_amount b))"
  by (simp add: next_amount_def stack_ok_calc)

lemma stack_ok_place: "stack_ok b \<Longrightarrow> stack_ok (snd (place_trade b d a u))"
  by (simp add: place_trade_def stack_ok_def Let_def)

lemma stack_ok_check: "stack_ok b \<Longrightarrow> stack_ok (snd (check_trade_result b r))"
  by (simp add: check_trade_result_def stack_ok_def Let_def)

lemma stack_ok_cycle: "stack_ok b \<Longrightarrow> stack_ok (trading_cycle b d r)"
proof -
  assume ok: "stack_ok b"
  obtain x b1 where n: "next_amount b = (x, b1)" by (cases "next_amount b")
  with ok stack_ok_next_amount [of b] have ok1: "stack_ok b1" by simp
  show ?thesis
  proof (cases x)
    case (Inl e)
    with n ok ok1 show ?thesis by (simp add: trading_cycle_def)
  next
    case (Inr amt)
    obtain p b2 where pl: "place_trade b1 d amt True = (p, b2)"
      by (cases "place_trade b1 d amt True")
    with ok1 stack_ok_place [of b1 d amt True] have ok2: "stack_ok b2" by simp
    with n Inr pl ok show ?thesis
      by (cases p) (simp_all add: trading_cycle_def stack_ok_check)
  qed
qed

lemma stack_ok_run: "stack_ok b \<Longrightarrow> stack_ok (run_results b rs)"
  unfolding run_results_def
  by (induction rs arbitrary: b) (simp_all add: stack_ok_cycle)

lemma amount_empty_history:
  "martingale_enabled b \<Longrightarrow> trade_history b = [] \<Longrightarrow> r \<noteq> ''win'' \<Longrightarrow>
   fst (calculate_martingale_amount b r) = Inl IndexError"
  by (simp add: calculate_martingale_amount_def Let_def py_index_def)

lemma example_ladder_sorted:
  "sorted (map to_double [1, 21 / 10, 441 / 100, 926 / 100, 1945 / 100])"
  by (simp add: double_1 double_2_1 double_4_41 double_9_26 double_19_45)

text \<open>
  C10, as the source has it. With martingale enabled and \<open>max_level \<ge> 1\<close>, in every state of
  a session and for every last result (a last trade exists, or the result is a win): the
  ladder has \<open>max_level\<close> entries; after a non-win the index
  \<open>min(current_level + 1, max_level - 1)\<close> lies within it; \<open>calculate_martingale_amount\<close>
  returns an entry of the ladder; and when the ladder is nondecreasing, the stake returned
  is at most \<open>ladder[max_level - 1]\<close>.
\<close>

theorem martingale_stake_from_ladder:
  assumes "martingale_enabled b" and "1 \<le> max_martingale_level b" and "stack_ok b"
    and "last_result = ''win'' \<or> trade_history b \<noteq> []"
  shows "let ladder = init_stack (trade_amount b) (martingale_coefficient b)
                        (max_martingale_level b);
             next_level = min (int (martingale_level (last (trade_history b))) + 1)
                              (max_martingale_level b - 1)
         in martingale_stack (snd (calculate_martingale_amount b last_result)) = ladder \<and>
            length ladder = nat (max_martingale_level b) \<and>
            (last_result \<noteq> ''win'' \<longrightarrow>
               0 \<le> next_level \<and> next_level < int (length ladder) \<and>
               fst (calculate_martingale_amount b last_result) = Inr (ladder ! nat next_level)) \<and>
            (\<exists>k. k < length ladder \<and>
                 fst (calculate_martingale_amount b last_result) = Inr (ladder ! k)) \<and>
            (sorted ladder \<longrightarrow>
               (\<exists>stake. fst (calculate_martingale_amount b last_result) = Inr stake \<and>
                        stake \<le> ladder ! nat (max_martingale_level b - 1)))"
proof -
  let ?L = "init_stack (trade_amount b) (martingale_coefficient b) (max_martingale_level b)"
  let ?n = "min (int (martingale_level (last (trade_history b))) + 1)
                (max_martingale_level b - 1)"
  let ?top = "nat (max_martingale_level b - 1)"
  have len: "length ?L = nat (max_martingale_level b)"
    using assms(2) by (simp add: length_init_stack)
  have top: "?top < length ?L" using assms(2) len by simp
  have st: "martingale_stack (snd (calculate_martingale_amount b last_result)) = ?L"
    using assms(1,3) by (rule stack_after_call)
  have n0: "0 \<le> ?n" using assms(2) by simp
  have n1: "?n < int (length ?L)" using assms(2) len by simp
  have pos: "\<exists>k. k \<le> ?top \<and> fst (calculate_martingale_amount b last_result) = Inr (?L ! k)"
  proof (cases "last_result = ''win''")
    case True
    have "fst (calculate_martingale_amount b last_result) = Inr (?L ! 0)"
      unfolding True using assms(1,3) by (rule amount_after_win)
    then show ?thesis by blast
  next
    case False
    with assms(4) have h: "trade_history b \<noteq> []" by simp
    have "fst (calculate_martingale_amount b last_result) = Inr (?L ! nat ?n)"
      using amount_after_non_win [OF assms(1,3) False h] py_index_nth [OF n0 n1] by simp
    moreover have "nat ?n \<le> ?top" using n0 by simp
    ultimately show ?thesis by blast
  qed
  then obtain k where k: "k \<le> ?top"
      "fst (calculate_martingale_amount b last_result) = Inr (?L ! k)" by blast
  have elem: "\<exists>k. k < length ?L \<and>
        fst (calculate_martingale_amount b last_result) = Inr (?L ! k)"
    using k top by (meson le_less_trans)
  have bound: "sorted ?L \<longrightarrow>
        (\<exists>stake. fst (calculate_martingale_amount b last_result) = Inr stake \<and>
                 stake \<le> ?L ! ?top)"
    using k top by (blast intro: sorted_nth_mono)
  have nonwin: "last_result \<noteq> ''win'' \<longrightarrow>
        0 \<le> ?n \<and> ?n < int (length ?L) \<and>
        fst (calculate_martingale_amount b last_result) = Inr (?L ! nat ?n)"
  proof
    assume nw: "last_result \<noteq> ''win''"
    with assms(4) have h: "trade_history b \<noteq> []" by simp
    have "fst (calculate_martingale_amount b last_result) = Inr (?L ! nat ?n)"
      using amount_after_non_win [OF assms(1,3) nw h] py_index_nth [OF n0 n1] by simp
    with n0 n1 show "0 \<le> ?n \<and> ?n < int (length ?L) \<and>
        fst (calculate_martingale_amount b last_result) = Inr (?L ! nat ?n)" by simp
  qed
  show ?thesis
    unfolding Let_def using st len nonwin elem bound by blast
qed

theorem martingale_stake_from_ladder_witness:
  "martingale_enabled example_bot_after_loss \<and>
   1 \<le> max_martingale_level example_bot_after_loss \<and>
   stack_ok example_bot_after_loss \<and>
   trade_history example_bot_after_loss \<noteq> [] \<and>
   sorted (init_stack (trade_amount example_bot_after_loss)
             (martingale_coefficient example_bot_after_loss)
             (max_martingale_level example_bot_after_loss)) \<and>
   fst (calculate_martingale_amount example_bot_after_loss ''loss'') = Inr (to_double (21 / 10)) \<and>
   to_double (21 / 10) \<le> to_double (1945 / 100)"
  using martingale_stake_from_ladder [of example_bot_after_loss "''loss''"]
    example_ladder_sorted
  by (simp add: example_bot_after_loss_def example_bot_def stack_ok_def Let_def
        init_stack_example)

lemma small_stake_step: 
  "py_round2 (float_mul (1152921504606847 / 1152921504606846976)
                        (4728779608739021 / 2251799813685248)) = 0"
  "py_round2 (float_mul 0 (4728779608739021 / 2251799813685248)) = 0"
  by (simp_all add: double_eval)

lemma small_stake_ladder:
  "init_stack (to_double (1 / 1000)) (to_double (21 / 10)) 3 = [to_double (1 / 1000), 0, 0]"
  unfolding init_stack_def
  by (simp add: upt_conv_Cons double_0_001 double_2_1 small_stake_step)

text \<open>
  C10, as the specification states it (the stake returned never exceeds
  \<open>ladder[max_level - 1]\<close>), fails: with base stake 0.001, coefficient 2.1 and
  \<open>max_level = 3\<close> the ladder is \<open>[0.001, 0.0, 0.0]\<close>, and after a win the stake returned is
  0.001, above \<open>ladder[2] = 0.0\<close>.
\<close>

theorem small_stake_exceeds_top:
  "run_results small_stake_bot [''win''] = small_stake_after_win \<and>
   martingale_enabled small_stake_after_win \<and>
   1 \<le> max_martingale_level small_stake_after_win \<and>
   martingale_stack (snd (calculate_martingale_amount small_stake_after_win ''win''))
     = [to_double (1 / 1000), 0, 0] \<and>
   fst (calculate_martingale_amount small_stake_after_win ''win'')
     = Inr (to_double (1 / 1000)) \<and>
   [to_double (1 / 1000), 0, 0] ! nat (max_martingale_level small_stake_after_win - 1)
     < to_double (1 / 1000)"
proof -
  have a: "run_results small_stake_bot [''win''] = small_stake_after_win"
    by (simp add: run_results_def trading_cycle_def next_amount_def place_trade_def
          check_trade_result_def small_stake_bot_def small_stake_after_win_def Let_def)
  have b: "martingale_stack (snd (calculate_martingale_amount small_stake_after_win ''win''))
             = [to_double (1 / 1000), 0, 0]"
    by (simp add: calculate_martingale_amount_def small_stake_after_win_def
          small_stake_bot_def Let_def small_stake_ladder)
  have c: "fst (calculate_martingale_amount small_stake_after_win ''win'')
             = Inr (to_double (1 / 1000))"
    by (simp add: calculate_martingale_amount_def small_stake_after_win_def
          small_stake_bot_def Let_def small_stake_ladder py_index_def)
  have d: "[to_double (1 / 1000), 0, 0] ! nat (max_martingale_level small_stake_after_win - 1)
             < to_double (1 / 1000)"
    by (simp add: small_stake_after_win_def small_stake_bot_def double_0_001)
  show ?thesis using a b c d
    by (simp add: small_stake_after_win_def small_stake_bot_def)
qed

text \<open>
  C2. The source takes the level of a trade to be the number of all losses of the history
  so far, not of the losses since the most recent win. After loss, win, loss (base stake 1,
  coefficient 2.1, \<open>max_level = 5\<close>) one loss has happened since the last win, and the
  ladder entry for it is 2.1; the source requests 4.41, the entry for two losses.
\<close>

theorem loss_win_loss_stake:
  "(let b = run_results example_bot [''loss'', ''win'', ''loss'']
    in map status (trade_history b) = [''loss'', ''win'', ''loss''] \<and>
       consecutive_loss_count (trade_history b) = 1 \<and>
       fst (next_amount b) = Inr (to_double (441 / 100)) \<and>
       py_index (init_stack 1 (to_double (21 / 10)) 5)
         (min (int (consecutive_loss_count (trade_history b))) (5 - 1))
           = Inr (to_double (21 / 10)) \<and>
       to_double (21 / 10) < to_double (441 / 100))"
proof -
  have lt: "to_double (21 / 10) < to_double (441 / 100)"
    by (simp add: double_2_1 double_4_41)
  show ?thesis
    using lt
    by (simp add: run_results_def trading_cycle_def next_amount_def place_trade_def
          check_trade_result_def example_bot_def Let_def calculate_martingale_amount_def
          py_index_def init_stack_example consecutive_loss_count_def)
qed

section \<open>Rolling means of finite prices\<close>

lemma foldl_fadd_Fin: "foldl fadd (Fin a) (map Fin ys) = Fin (a + sum_list ys)"
  by (induction ys arbitrary: a) (simp_all add: add.assoc)

lemma window_mean_Fin: "0 < w \<Longrightarrow> window_mean w (map Fin ys) = Fin (sum_list ys / real w)"
  by (simp add: window_mean_def list_ex_iff foldl_fadd_Fin)

lemma rolling_mean_length: "rolling_mean w xs = Inr col \<Longrightarrow> length col = length xs"
  by (auto simp: rolling_mean_def Let_def split: pyval.splits if_splits)

lemma rolling_mean_last:
  assumes "0 \<le> k" "xs \<noteq> []"
  shows "\<exists>col. rolling_mean (PInt k) xs = Inr col \<and> length col = length xs \<and>
     last col = (if length xs < nat k then NaN
                 else window_mean (nat k) (drop (length xs - nat k) xs))"
proof -
  let ?f = "\<lambda>i. if i + 1 < nat k then NaN
                 else window_mean (nat k) (take (nat k) (drop (i + 1 - nat k) xs))"
  have r: "rolling_mean (PInt k) xs = Inr (map ?f [0 ..< length xs])"
    using assms by (simp add: rolling_mean_def Let_def)
  have n: "[0 ..< length xs] \<noteq> []" using assms by simp
  have "last (map ?f [0 ..< length xs]) = ?f (last [0 ..< length xs])"
    using n by (rule last_map)
  also have "last [0 ..< length xs] = length xs - 1"
    using assms by (simp add: last_upt)
  also have "?f (length xs - 1) = (if length xs < nat k then NaN
                 else window_mean (nat k) (drop (length xs - nat k) xs))"
    using assms by (auto simp: Suc_leI)
  finally show ?thesis using r by simp
qed

lemma rolling_mean_last_Fin:
  assumes "1 \<le> k" "nat k \<le> length cs"
  shows "\<exists>col. rolling_mean (PInt k) (map Fin cs) = Inr col \<and> length col = length cs \<and>
     last col = Fin (trailing_mean (nat k) cs)"
proof -
  have ne: "map Fin cs \<noteq> []" using assms by auto
  have k0: "0 \<le> k" using assms by simp
  from rolling_mean_last [OF k0 ne] obtain col where
    c: "rolling_mean (PInt k) (map Fin cs) = Inr col" "length col = length cs"
       "last col = window_mean (nat k) (drop (length cs - nat k) (map Fin cs))"
    using assms by auto
  have "window_mean (nat k) (drop (length cs - nat k) (map Fin cs))
        = Fin (trailing_mean (nat k) cs)"
    using assms by (simp add: drop_map window_mean_Fin trailing_mean_def)
  with c show ?thesis by simp
qed

lemma trend_signal_finite:
  assumes close: "columns data ''close'' = Some (map Fin cs)"
    and len: "index_len data = length cs"
    and sp: "short_period s = PInt sp" "1 \<le> sp" "nat sp \<le> length cs"
    and lp: "long_period s = PInt lp" "1 \<le> lp" "nat lp \<le> length cs"
  shows "fst (TrendFollowingStrategy_analyze s data)
     = Inr (Some (if trailing_mean (nat lp) cs < trailing_mean (nat sp) cs
                  then ''call'' else ''put''))"
proof -
  obtain ss where ss: "rolling_mean (PInt sp) (map Fin cs) = Inr ss"
      "last ss = Fin (trailing_mean (nat sp) cs)"
    using rolling_mean_last_Fin [OF sp(2,3)] by blast
  obtain ls where ls: "rolling_mean (PInt lp) (map Fin cs) = Inr ls"
      "last ls = Fin (trailing_mean (nat lp) cs)"
    using rolling_mean_last_Fin [OF lp(2,3)] by blast
  have guard: "\<not> real (index_len data) < to_real (long_period s)"
    using lp len by (simp add: lp(1))
  have pos: "index_len data \<noteq> 0" using lp len by auto
  show ?thesis
    using guard pos close ss ls
    by (simp add: TrendFollowingStrategy_analyze_def get_column_def set_column_def
          iloc_last_def row_get_def sp(1) lp(1) Let_def fgt_def)
qed

section \<open>Averages of monotone series\<close>







lemma flt_irrefl: "\<not> flt a a"
  by (cases a) simp_all

section \<open>The trend-following signal\<close>



text \<open>
  C7. Whenever both moving averages of the last row are defined (not \<open>NaN\<close>) and equal, the
  trend-following strategy returns \<open>put\<close> (Down).
\<close>

theorem trend_tie_is_put:
  assumes "columns data ''close'' = Some close" and "index_len data = length close"
    and "close \<noteq> []"
    and "rolling_mean (short_period s) close = Inr sma_short"
    and "rolling_mean (long_period s) close = Inr sma_long"
    and "\<not> isna (last sma_short)" and "last sma_short = last sma_long"
  shows "fst (TrendFollowingStrategy_analyze s data) = Inr (Some ''put'')"
proof -
  obtain k where k: "long_period s = PInt k" "0 \<le> k"
    using assms(5) by (cases "long_period s") (auto simp: rolling_mean_def split: if_splits)
  from rolling_mean_last [OF k(2) assms(3)] assms(5) k(1)
  have "last sma_long = (if length close < nat k then NaN
           else window_mean (nat k) (drop (length close - nat k) close))"
    by simp
  with assms(6,7) have "\<not> length close < nat k" by (auto split: if_splits)
  then have guard: "\<not> real (index_len data) < to_real (long_period s)"
    using k assms(2) by simp
  have pos: "index_len data \<noteq> 0" using assms(2,3) by simp
  show ?thesis
    using guard pos assms(1,4,5,6,7) flt_irrefl [of "last sma_long"]
    by (simp add: TrendFollowingStrategy_analyze_def get_column_def set_column_def
          iloc_last_def row_get_def Let_def fgt_def)
qed

theorem trend_tie_is_put_witness:
  "fst (TrendFollowingStrategy_analyze example_trend (close_frame [2, 1, 3]))
     = Inr (Some ''put'')"
  using trend_tie_is_put [of "close_frame [2, 1, 3]" "map Fin [2, 1, 3]" example_trend
      "[NaN, Fin (3 / 2), Fin 2]" "[NaN, NaN, Fin 2]"]
  by (simp add: close_frame_def example_trend_def rolling_mean_def window_mean_def Let_def
        upt_conv_Cons)

text \<open>
  C9. With \<open>1 \<le> short_period \<le> long_period\<close> and at least \<open>long_period\<close> bars of finite
  closing prices, neither moving average of the last row is \<open>NaN\<close>: the guard does not fire
  and \<open>analyze\<close> returns \<open>call\<close> or \<open>put\<close>, never \<open>None\<close>.
\<close>

theorem trend_guard_unreachable:
  assumes "columns data ''close'' = Some (map Fin cs)" and "index_len data = length cs"
    and "short_period s = PInt sp" and "long_period s = PInt lp"
    and "1 \<le> sp" and "sp \<le> lp" and "nat lp \<le> length cs"
  shows "(\<exists>sma_short sma_long.
            rolling_mean (short_period s) (map Fin cs) = Inr sma_short \<and>
            rolling_mean (long_period s) (map Fin cs) = Inr sma_long \<and>
            \<not> isna (last sma_short) \<and> \<not> isna (last sma_long)) \<and>
         (fst (TrendFollowingStrategy_analyze s data) = Inr (Some ''call'') \<or>
          fst (TrendFollowingStrategy_analyze s data) = Inr (Some ''put''))"
proof -
  have b: "nat sp \<le> length cs" "1 \<le> lp" using assms(5,6,7) by simp_all
  obtain ss where ss: "rolling_mean (PInt sp) (map Fin cs) = Inr ss"
      "last ss = Fin (trailing_mean (nat sp) cs)"
    using rolling_mean_last_Fin [OF assms(5) b(1)] by blast
  obtain ls where ls: "rolling_mean (PInt lp) (map Fin cs) = Inr ls"
      "last ls = Fin (trailing_mean (nat lp) cs)"
    using rolling_mean_last_Fin [OF b(2) assms(7)] by blast
  have "fst (TrendFollowingStrategy_analyze s data)
     = Inr (Some (if trailing_mean (nat lp) cs < trailing_mean (nat sp) cs
                  then ''call'' else ''put''))"
    using assms(1,2,3) assms(5) b(1) assms(4) b(2) assms(7) by (rule trend_signal_finite)
  then show ?thesis using ss ls assms(3,4) by simp
qed

theorem trend_guard_unreachable_witness:
  "fst (TrendFollowingStrategy_analyze example_trend (close_frame [1, 3, 2]))
     = Inr (Some ''call'') \<or>
   fst (TrendFollowingStrategy_analyze example_trend (close_frame [1, 3, 2]))
     = Inr (Some ''put'')"
  using trend_guard_unreachable [of "close_frame [1, 3, 2]" "[1, 3, 2]" example_trend 2 3]
  by (simp add: close_frame_def example_trend_def)

section \<open>The RSI of the last row\<close>

lemma length_deltas: "length (deltas cs) = length cs - 1"
  by (simp add: deltas_def)

lemma nth_deltas: "Suc i < length cs \<Longrightarrow> deltas cs ! i = cs ! Suc i - cs ! i"
  by (simp add: deltas_def nth_tl)

lemma diff_Fin: "cs \<noteq> [] \<Longrightarrow> diff (map Fin cs) = NaN # map Fin (deltas cs)"
proof (cases cs)
  case Nil
  then show "cs \<noteq> [] \<Longrightarrow> ?thesis" by simp
next
  case (Cons c cs')
  have "map2 (\<lambda>prev cur. fsub cur prev) (map Fin xs) (map Fin ys)
          = map Fin (map2 (\<lambda>prev cur. cur - prev) xs ys)" for xs ys :: "real list"
    by (auto simp: zip_map_map fsub_def)
  from this [of "c # cs'" cs'] Cons show ?thesis
    by (simp add: deltas_def)
qed

lemma gain_column:
  "cs \<noteq> [] \<Longrightarrow>
   series_where (\<lambda>d. fgt d (Fin 0)) (Fin 0) (diff (map Fin cs)) = map Fin (gains cs)"
  by (simp add: diff_Fin series_where_def gains_def fgt_def)

lemma loss_column:
  "cs \<noteq> [] \<Longrightarrow>
   map fneg (series_where (\<lambda>d. flt d (Fin 0)) (Fin 0) (diff (map Fin cs)))
     = map Fin (losses cs)"
  by (simp add: diff_Fin series_where_def losses_def)

lemma length_gains: "cs \<noteq> [] \<Longrightarrow> length (gains cs) = length cs"
  by (cases cs) (simp_all add: gains_def length_deltas)

lemma length_losses: "cs \<noteq> [] \<Longrightarrow> length (losses cs) = length cs"
  by (cases cs) (simp_all add: losses_def length_deltas)

lemma last_map2:
  "xs \<noteq> [] \<Longrightarrow> length xs = length ys \<Longrightarrow> last (map2 f xs ys) = f (last xs) (last ys)"
  by (induction xs ys rule: list_induct2') auto

lemma rsi_last_finite:
  assumes close: "columns data ''close'' = Some (map Fin cs)"
    and p: "rsi_period s = PInt p" "1 \<le> p" "nat p \<le> length cs"
  shows "\<exists>rsi. calculate_rsi s data = Inr rsi \<and> length rsi = length cs \<and>
           last rsi = rsi_of (trailing_mean (nat p) (gains cs))
                             (trailing_mean (nat p) (losses cs))"
proof -
  have ne: "cs \<noteq> []" using p by auto
  have pg: "nat p \<le> length (gains cs)" and pl: "nat p \<le> length (losses cs)"
    using p(3) ne by (simp_all add: length_gains length_losses)
  obtain ag where ag: "rolling_mean (PInt p) (map Fin (gains cs)) = Inr ag"
      "length ag = length cs" "last ag = Fin (trailing_mean (nat p) (gains cs))"
    using rolling_mean_last_Fin [OF p(2) pg] ne by (auto simp: length_gains)
  obtain al where al: "rolling_mean (PInt p) (map Fin (losses cs)) = Inr al"
      "length al = length cs" "last al = Fin (trailing_mean (nat p) (losses cs))"
    using rolling_mean_last_Fin [OF p(2) pl] ne by (auto simp: length_losses)
  let ?rs = "map2 fdiv ag al"
  let ?rsi = "map (\<lambda>r. fsub (Fin 100) (fdiv (Fin 100) (fadd (Fin 1) r))) ?rs"
  have c: "calculate_rsi s data = Inr ?rsi"
    using close ne ag(1) al(1)
    by (simp add: calculate_rsi_def get_column_def gain_column loss_column p(1) Let_def)
  have agne: "ag \<noteq> []" using ag(2) ne by auto
  have lrs: "last ?rs = fdiv (last ag) (last al)"
    using agne ag(2) al(2) by (simp add: last_map2)
  have rsne: "?rs \<noteq> []" using agne ag(2) al(2) by (cases ag; cases al) auto
  have "last ?rsi = fsub (Fin 100) (fdiv (Fin 100) (fadd (Fin 1) (last ?rs)))"
    using rsne by (rule last_map)
  then have "last ?rsi = rsi_of (trailing_mean (nat p) (gains cs))
                                (trailing_mean (nat p) (losses cs))"
    by (simp only: lrs ag(3) al(3) rsi_of_def)
  moreover have "length ?rsi = length cs" using ag(2) al(2) by simp
  ultimately show ?thesis using c by blast
qed

lemma rsi_signal_finite:
  assumes close: "columns data ''close'' = Some (map Fin cs)"
    and len: "index_len data = length cs"
    and p: "rsi_period s = PInt p" "1 \<le> p" "nat p + 1 \<le> length cs"
    and r: "r = rsi_of (trailing_mean (nat p) (gains cs)) (trailing_mean (nat p) (losses cs))"
  shows "fst (RSIStrategy_analyze s data)
     = Inr (if isna r then None
            else if fle r (Fin (to_real (oversold s))) then Some ''call''
            else if fge r (Fin (to_real (overbought s))) then Some ''put''
            else None)"
proof -
  have p': "nat p \<le> length cs" using p(3) by simp
  obtain rsi where rsi: "calculate_rsi s data = Inr rsi" "length rsi = length cs"
      "last rsi = r"
    using rsi_last_finite [OF close p(1,2) p'] r by blast
  have guard: "\<not> real (index_len data) < to_real (rsi_period s) + 1"
    using p len by (simp add: p(1)) 
  have pos: "index_len data \<noteq> 0" using p len by auto
  show ?thesis
    using guard pos rsi
    by (simp add: RSIStrategy_analyze_def set_column_def iloc_last_def row_get_def Let_def)
qed

lemma set_drop_nth:
  "(\<And>j. k \<le> j \<Longrightarrow> j < length ds \<Longrightarrow> P (ds ! j)) \<Longrightarrow> \<forall>x\<in>set (drop k ds). P x"
  by (auto simp: in_set_conv_nth)

lemma sum_list_zero: "\<forall>x\<in>set xs. x = (0::real) \<Longrightarrow> sum_list xs = 0"
  by (induction xs) simp_all

lemma sum_list_positive: "xs \<noteq> [] \<Longrightarrow> \<forall>x\<in>set xs. (0::real) < x \<Longrightarrow> 0 < sum_list xs"
  by (induction xs) (auto intro: add_pos_nonneg sum_list_nonneg less_imp_le)

lemma rsi_of_zero_zero: "rsi_of 0 0 = NaN"
  by (simp add: rsi_of_def fsub_def)

lemma rsi_of_zero_loss: "0 < g \<Longrightarrow> rsi_of g 0 = Fin 100"
  by (simp add: rsi_of_def fsub_def)

lemma flat_deltas:
  assumes "\<forall>x\<in>set cs. x = c"
  shows "\<forall>d\<in>set (deltas cs). d = 0"
proof -
  have "deltas cs ! i = 0" if "i < length (deltas cs)" for i
  proof -
    from that have i: "Suc i < length cs" by (simp add: length_deltas)
    then have "cs ! Suc i = c" "cs ! i = c" using assms by simp_all
    with i show ?thesis by (simp add: nth_deltas)
  qed
  then show ?thesis by (auto simp: in_set_conv_nth)
qed

lemma flat_means:
  assumes "\<forall>x\<in>set cs. x = c"
  shows "trailing_mean w (gains cs) = 0" and "trailing_mean w (losses cs) = 0"
proof -
  have g: "\<forall>x\<in>set (gains cs). x = 0" and l: "\<forall>x\<in>set (losses cs). x = 0"
    using flat_deltas [OF assms] by (auto simp: gains_def losses_def)
  have "\<forall>x\<in>set (drop k (gains cs)). x = 0" for k
    using g by (meson in_set_dropD)
  then show "trailing_mean w (gains cs) = 0"
    by (simp add: trailing_mean_def sum_list_zero)
  have "\<forall>x\<in>set (drop k (losses cs)). x = 0" for k
    using l by (meson in_set_dropD)
  then show "trailing_mean w (losses cs) = 0"
    by (simp add: trailing_mean_def sum_list_zero)
qed

lemma rising_window_means:
  assumes w: "1 \<le> w" "w + 1 \<le> length cs"
    and up: "\<forall>i. length cs - w \<le> i \<and> i < length cs \<longrightarrow> cs ! (i - 1) < cs ! i"
  shows "0 < trailing_mean w (gains cs)" and "trailing_mean w (losses cs) = 0"
proof -
  let ?k = "length cs - w - 1"
  have ne: "cs \<noteq> []" using w by auto
  have d: "\<forall>x\<in>set (drop ?k (deltas cs)). 0 < x"
  proof (rule set_drop_nth)
    fix j assume j: "?k \<le> j" "j < length (deltas cs)"
    then have "Suc j < length cs" by (simp add: length_deltas)
    moreover have "length cs - w \<le> Suc j" using j w by simp
    ultimately have "cs ! (Suc j - 1) < cs ! Suc j" using up by blast
    with \<open>Suc j < length cs\<close> show "0 < deltas cs ! j" by (simp add: nth_deltas)
  qed
  have dg: "drop (length (gains cs) - w) (gains cs)
              = map (\<lambda>d. if 0 < d then d else 0) (drop ?k (deltas cs))"
    using w ne by (simp add: gains_def length_deltas drop_Cons' drop_map)
  have dl: "drop (length (losses cs) - w) (losses cs)
              = map (\<lambda>d. if d < 0 then - d else 0) (drop ?k (deltas cs))"
    using w ne by (simp add: losses_def length_deltas drop_Cons' drop_map)
  have len: "length (drop ?k (deltas cs)) = w" using w by (simp add: length_deltas)
  then have nonempty: "drop ?k (deltas cs) \<noteq> []" using w by auto
  have "map (\<lambda>d. if 0 < d then d else 0) (drop ?k (deltas cs)) = drop ?k (deltas cs)"
    using d by (simp add: map_idI)
  then have "0 < sum_list (drop (length (gains cs) - w) (gains cs))"
    unfolding dg using sum_list_positive [OF nonempty d] by simp
  then show "0 < trailing_mean w (gains cs)"
    using w by (simp add: trailing_mean_def)
  have "\<forall>x\<in>set (map (\<lambda>d. if d < 0 then - d else 0) (drop ?k (deltas cs))). x = 0"
    using d by auto
  then have "sum_list (drop (length (losses cs) - w) (losses cs)) = 0"
    unfolding dl by (rule sum_list_zero)
  then show "trailing_mean w (losses cs) = 0"
    by (simp add: trailing_mean_def)
qed

lemma average_columns:
  assumes "rsi_period s = PInt p" "1 \<le> p" "nat p \<le> length cs"
  shows "\<exists>avg_gain avg_loss.
     rolling_mean (rsi_period s)
        (series_where (\<lambda>d. fgt d (Fin 0)) (Fin 0) (diff (map Fin cs))) = Inr avg_gain \<and>
     rolling_mean (rsi_period s)
        (map fneg (series_where (\<lambda>d. flt d (Fin 0)) (Fin 0) (diff (map Fin cs))))
          = Inr avg_loss \<and>
     last avg_gain = Fin (trailing_mean (nat p) (gains cs)) \<and>
     last avg_loss = Fin (trailing_mean (nat p) (losses cs))"
proof -
  have ne: "cs \<noteq> []" using assms by auto
  have pg: "nat p \<le> length (gains cs)" and pl: "nat p \<le> length (losses cs)"
    using assms(3) ne by (simp_all add: length_gains length_losses)
  show ?thesis
    using rolling_mean_last_Fin [OF assms(2) pg] rolling_mean_last_Fin [OF assms(2) pl] ne
    by (simp add: gain_column loss_column assms(1)) blast
qed

section \<open>The RSI signal\<close>

text \<open>
  C3, as the source has it. For a flat series of finite closing prices with at least
  \<open>period + 1\<close> bars (\<open>period \<ge> 1\<close>), the averages of gains and losses of the last row are
  both 0, their quotient 0 / 0 is \<open>NaN\<close> (the source has no zero-loss rule), the RSI of the
  last row is \<open>NaN\<close>, and \<open>analyze\<close> returns \<open>None\<close> through its \<open>NaN\<close> guard.
\<close>

theorem rsi_flat_series_is_none:
  assumes "columns data ''close'' = Some (map Fin cs)" and "index_len data = length cs"
    and "rsi_period s = PInt p" and "1 \<le> p" and "nat p + 1 \<le> length cs"
    and "\<forall>x\<in>set cs. x = c"
  shows "(\<exists>avg_gain avg_loss.
            rolling_mean (rsi_period s)
              (series_where (\<lambda>d. fgt d (Fin 0)) (Fin 0) (diff (map Fin cs))) = Inr avg_gain \<and>
            rolling_mean (rsi_period s)
              (map fneg (series_where (\<lambda>d. flt d (Fin 0)) (Fin 0) (diff (map Fin cs))))
                = Inr avg_loss \<and>
            last avg_gain = Fin 0 \<and> last avg_loss = Fin 0) \<and>
         (\<exists>rsi. calculate_rsi s data = Inr rsi \<and> last rsi = NaN) \<and>
         fst (RSIStrategy_analyze s data) = Inr None"
proof -
  have p': "nat p \<le> length cs" using assms(5) by simp
  have m: "trailing_mean (nat p) (gains cs) = 0" "trailing_mean (nat p) (losses cs) = 0"
    using flat_means [OF assms(6)] by simp_all
  have a: "\<exists>avg_gain avg_loss.
            rolling_mean (rsi_period s)
              (series_where (\<lambda>d. fgt d (Fin 0)) (Fin 0) (diff (map Fin cs))) = Inr avg_gain \<and>
            rolling_mean (rsi_period s)
              (map fneg (series_where (\<lambda>d. flt d (Fin 0)) (Fin 0) (diff (map Fin cs))))
                = Inr avg_loss \<and>
            last avg_gain = Fin 0 \<and> last avg_loss = Fin 0"
    using average_columns [OF assms(3,4) p'] unfolding m .
  have b: "\<exists>rsi. calculate_rsi s data = Inr rsi \<and> last rsi = NaN"
    using rsi_last_finite [OF assms(1,3,4) p'] unfolding m rsi_of_zero_zero by blast
  have "fst (RSIStrategy_analyze s data) = Inr None"
    using rsi_signal_finite [OF assms(1,2,3,4,5) refl] unfolding m rsi_of_zero_zero by simp
  with a b show ?thesis by blast
qed

theorem rsi_flat_series_is_none_witness:
  "fst (RSIStrategy_analyze example_rsi (close_frame [1, 1, 1])) = Inr None"
  using rsi_flat_series_is_none [of "close_frame [1, 1, 1]" "[1, 1, 1]" example_rsi 2 1]
  by (simp add: close_frame_def example_rsi_def)

text \<open>
  C3, as the specification states it (a flat series yields RSI = 100 and Down), fails:
  three equal closing prices with period 2 and \<open>overbought = 70\<close> give an RSI column of
  \<open>NaN\<close> and no \<open>put\<close>.
\<close>

theorem rsi_flat_series_not_put:
  "fst (RSIStrategy_analyze example_rsi (close_frame [1, 1, 1])) \<noteq> Inr (Some ''put'') \<and>
   calculate_rsi example_rsi (close_frame [1, 1, 1]) = Inr [NaN, NaN, NaN] \<and>
   to_real (overbought example_rsi) \<le> 100"
  by (simp add: RSIStrategy_analyze_def calculate_rsi_def get_column_def set_column_def
        iloc_last_def row_get_def rolling_mean_def window_mean_def series_where_def fsub_def
        fgt_def fge_def close_frame_def example_rsi_def Let_def upt_conv_Cons)

text \<open>
  C8. For finite closing prices with at least \<open>period + 1\<close> bars (\<open>period \<ge> 1\<close>) whose last
  \<open>period\<close> changes are all gains, the average gain of the last row is positive and the
  average loss is 0, the RSI of the last row is 100, and with
  \<open>oversold < overbought \<le> 100\<close> \<open>analyze\<close> returns \<open>put\<close> (Down).
\<close>

theorem rsi_all_gains_is_put:
  assumes "columns data ''close'' = Some (map Fin cs)" and "index_len data = length cs"
    and "rsi_period s = PInt p" and "1 \<le> p" and "nat p + 1 \<le> length cs"
    and "\<forall>i. length cs - nat p \<le> i \<and> i < length cs \<longrightarrow> cs ! (i - 1) < cs ! i"
    and "to_real (oversold s) < to_real (overbought s)"
    and "to_real (overbought s) \<le> 100"
  shows "(\<exists>avg_gain avg_loss g.
            rolling_mean (rsi_period s)
              (series_where (\<lambda>d. fgt d (Fin 0)) (Fin 0) (diff (map Fin cs))) = Inr avg_gain \<and>
            rolling_mean (rsi_period s)
              (map fneg (series_where (\<lambda>d. flt d (Fin 0)) (Fin 0) (diff (map Fin cs))))
                = Inr avg_loss \<and>
            last avg_gain = Fin g \<and> 0 < g \<and> last avg_loss = Fin 0) \<and>
         (\<exists>rsi. calculate_rsi s data = Inr rsi \<and> last rsi = Fin 100) \<and>
         fst (RSIStrategy_analyze s data) = Inr (Some ''put'')"
proof -
  have p': "nat p \<le> length cs" and w: "1 \<le> nat p" using assms(4,5) by simp_all
  have g: "0 < trailing_mean (nat p) (gains cs)"
    and l: "trailing_mean (nat p) (losses cs) = 0"
    using rising_window_means [OF w assms(5,6)] by simp_all
  have r: "rsi_of (trailing_mean (nat p) (gains cs)) (trailing_mean (nat p) (losses cs))
             = Fin 100"
    unfolding l using g by (rule rsi_of_zero_loss)
  have a: "\<exists>avg_gain avg_loss g.
            rolling_mean (rsi_period s)
              (series_where (\<lambda>d. fgt d (Fin 0)) (Fin 0) (diff (map Fin cs))) = Inr avg_gain \<and>
            rolling_mean (rsi_period s)
              (map fneg (series_where (\<lambda>d. flt d (Fin 0)) (Fin 0) (diff (map Fin cs))))
                = Inr avg_loss \<and>
            last avg_gain = Fin g \<and> 0 < g \<and> last avg_loss = Fin 0"
    using average_columns [OF assms(3,4) p'] g unfolding l by blast
  have b: "\<exists>rsi. calculate_rsi s data = Inr rsi \<and> last rsi = Fin 100"
    using rsi_last_finite [OF assms(1,3,4) p'] unfolding r by blast
  have "fst (RSIStrategy_analyze s data) = Inr (Some ''put'')"
    using rsi_signal_finite [OF assms(1,2,3,4,5) refl] assms(7,8) unfolding r
    by (simp add: fge_def)
  with a b show ?thesis by blast
qed

theorem rsi_all_gains_is_put_witness:
  "fst (RSIStrategy_analyze example_rsi (close_frame [3, 1, 2, 3])) = Inr (Some ''put'')"
  using rsi_all_gains_is_put [of "close_frame [3, 1, 2, 3]" "[3, 1, 2, 3]" example_rsi 2]
  by (simp add: close_frame_def example_rsi_def nth_Cons' less_Suc_eq)

section \<open>The frame after an analysis\<close>

lemma trend_frame:
  "index_len (snd (TrendFollowingStrategy_analyze s data)) = index_len data \<and>
   (name \<noteq> ''sma_short'' \<and> name \<noteq> ''sma_long'' \<longrightarrow>
      columns (snd (TrendFollowingStrategy_analyze s data)) name = columns data name)"
  by (simp add: TrendFollowingStrategy_analyze_def set_column_def Let_def split: sum.split)

lemma rsi_frame:
  "index_len (snd (RSIStrategy_analyze s data)) = index_len data \<and>
   (name \<noteq> ''rsi'' \<longrightarrow>
      columns (snd (RSIStrategy_analyze s data)) name = columns data name)"
  by (simp add: RSIStrategy_analyze_def set_column_def Let_def split: sum.split)

lemma random_frame: "snd (RandomStrategy_analyze s u data) = data"
  by (simp add: RandomStrategy_analyze_def)

text \<open>
  C4, as the source has it. A call of \<open>analyze\<close> keeps the number of rows and every column
  other than the indicator columns of the strategy (\<open>sma_short\<close> and \<open>sma_long\<close> for
  trend following, \<open>rsi\<close> for RSI, none for the random strategy): in particular the
  closing prices are unchanged, and the random strategy leaves the whole frame unchanged.
\<close>

theorem analyze_keeps_other_columns:
  "index_len (snd (analyze s u data)) = index_len data \<and>
   (\<forall>name. name \<notin> indicator_columns s \<longrightarrow>
      columns (snd (analyze s u data)) name = columns data name) \<and>
   columns (snd (analyze s u data)) ''close'' = columns data ''close'' \<and>
   (indicator_columns s = {} \<longrightarrow> snd (analyze s u data) = data)"
proof (cases s)
  case (TrendFollowing t)
  then show ?thesis using trend_frame [of t data] by simp
next
  case (RSI r)
  then show ?thesis using rsi_frame [of r data] by simp
next
  case (Random r)
  then show ?thesis by (simp add: random_frame)
qed

theorem analyze_keeps_other_columns_witness:
  "''close'' \<notin> indicator_columns (TrendFollowing example_trend) \<and>
   columns (snd (analyze (TrendFollowing example_trend) 0 (close_frame [1, 2, 3]))) ''close''
     = Some [Fin 1, Fin 2, Fin 3]"
  using analyze_keeps_other_columns [of "TrendFollowing example_trend" 0 "close_frame [1, 2, 3]"]
  by (simp add: close_frame_def)

text \<open>
  C4, as the specification states it (the series of the caller is left unchanged), fails:
  after a trend-following analysis of three bars the frame of the caller has a column
  \<open>sma_short\<close> that it did not have before.
\<close>

theorem analyze_adds_columns:
  "columns (close_frame [1, 2, 3]) ''sma_short'' = None \<and>
   columns (snd (analyze (TrendFollowing example_trend) 0 (close_frame [1, 2, 3]))) ''sma_short''
     = Some [NaN, Fin (3 / 2), Fin (5 / 2)] \<and>
   snd (analyze (TrendFollowing example_trend) 0 (close_frame [1, 2, 3])) \<noteq> close_frame [1, 2, 3]"
proof -
  have a: "columns (close_frame [1, 2, 3]) ''sma_short'' = None"
    by (simp add: close_frame_def)
  have b: "columns (snd (analyze (TrendFollowing example_trend) 0 (close_frame [1, 2, 3])))
             ''sma_short'' = Some [NaN, Fin (3 / 2), Fin (5 / 2)]"
    by (simp add: TrendFollowingStrategy_analyze_def get_column_def set_column_def
          iloc_last_def row_get_def rolling_mean_def window_mean_def fgt_def close_frame_def
          example_trend_def Let_def upt_conv_Cons)
  from a b have "snd (analyze (TrendFollowing example_trend) 0 (close_frame [1, 2, 3]))
                   \<noteq> close_frame [1, 2, 3]"
    by (metis option.distinct(1))
  with a b show ?thesis by blast
qed

section \<open>Construction\<close>

text \<open>
  C1, as the source has it. The constructors check nothing: for every option dictionary,
  strategy type and configuration, construction succeeds and stores the values as they are
  given (the defaults where an option is absent).
\<close>

theorem construction_never_raises:
  "(\<exists>s. TrendFollowingStrategy_init p = Inr s \<and>
        short_period s = dict_get (or_empty p) ''short_period'' (PInt 5) \<and>
        long_period s = dict_get (or_empty p) ''long_period'' (PInt 10)) \<and>
   (\<exists>s. get_strategy strategy_type p = Inr s) \<and>
   (\<exists>b. PocketOptionBot_init config = Inr b \<and>
        martingale_coefficient b = cfg_martingale_coefficient (cfg_risk config) \<and>
        max_martingale_level b = cfg_max_martingale_level (cfg_risk config) \<and>
        martingale_stack b = [] \<and> trade_history b = [])"
  by (simp add: TrendFollowingStrategy_init_def RSIStrategy_init_def RandomStrategy_init_def
        get_strategy_def PocketOptionBot_init_def)

text \<open>
  C1, as the specification states it (construction with \<open>long_period \<le> short_period\<close>,
  coefficient 1.0 or \<open>max_level = 0\<close> raises), fails: both constructions succeed.
\<close>

theorem construction_accepts_malformed:
  "TrendFollowingStrategy_init (Some malformed_parameters)
     = Inr \<lparr> short_period = PInt 10, long_period = PInt 5 \<rparr> \<and>
   get_strategy ''trend_following'' (Some malformed_parameters)
     = Inr (TrendFollowing \<lparr> short_period = PInt 10, long_period = PInt 5 \<rparr>) \<and>
   (\<exists>b. PocketOptionBot_init malformed_config = Inr b \<and>
        martingale_coefficient b = 1 \<and> max_martingale_level b = 0)"
  by (simp add: TrendFollowingStrategy_init_def get_strategy_def malformed_parameters_def
        or_empty_def dict_get_def PocketOptionBot_init_def malformed_config_def)

end
